theory Spec2Isabelle
  imports Main "HOL-Library.Sublist"
begin

section \<open>JavaScript values of the front end\<close>

text \<open>
  A JavaScript string is a sequence of UTF-16 code units. \<open>ascii\<close> embeds the
  ASCII literals of the source; the accented letters and the emoji of the user
  interface are written as their code units.
\<close>

type_synonym jsstring = "nat list"

definition ascii :: "string \<Rightarrow> jsstring" where
  "ascii s = map of_char s"

text \<open>
  \<^verbatim>\<open>String.prototype.trim\<close> removes the white space and line terminator code
  units of ECMAScript from both ends.
\<close>

definition is_white_space :: "nat \<Rightarrow> bool" where
  "is_white_space c =
     (c \<in> set [0x09, 0x0A, 0x0B, 0x0C, 0x0D, 0x20, 0xA0, 0x1680,
                0x2028, 0x2029, 0x202F, 0x205F, 0x3000, 0xFEFF]
      \<or> (0x2000 \<le> c \<and> c \<le> 0x200A))"

definition trim :: "jsstring \<Rightarrow> jsstring" where
  "trim s = rev (dropWhile is_white_space (rev (dropWhile is_white_space s)))"

text \<open>
  The values a session id variable holds: \<^verbatim>\<open>null\<close> (the initial value of both
  panels), \<^verbatim>\<open>undefined\<close> (a missing \<^verbatim>\<open>session_id\<close> or event detail) or a
  string. \<open>truthy\<close> is the test of \<^verbatim>\<open>!sessionId\<close>; \<open>to_string\<close> is the
  conversion a template literal applies.
\<close>

datatype jsval = JNull | JUndefined | JString jsstring

fun truthy :: "jsval \<Rightarrow> bool" where
  "truthy JNull = False"
| "truthy JUndefined = False"
| "truthy (JString s) = (s \<noteq> [])"

fun to_string :: "jsval \<Rightarrow> jsstring" where
  "to_string JNull = ascii ''null''"
| "to_string JUndefined = ascii ''undefined''"
| "to_string (JString s) = s"

section \<open>HTTP requests and events\<close>

text \<open>
  One turn of the chat, the object \<^verbatim>\<open>{ role, content }\<close> of chat.js.
\<close>

record message =
  role :: jsstring
  content :: jsstring

text \<open>
  Every request of the two panels is an \<^verbatim>\<open>axios.post(url, body)\<close>. The three
  bodies are \<^verbatim>\<open>{ game_id, mode }\<close>, \<^verbatim>\<open>{ use_ai }\<close> and \<^verbatim>\<open>{ messages }\<close>.
  A response is \<open>Inl\<close> of \<^verbatim>\<open>error.message\<close> when the awaited call throws into
  the \<^verbatim>\<open>catch\<close> block and \<open>Inr\<close> of the fields read from
  \<^verbatim>\<open>response.data\<close> otherwise.
\<close>

datatype payload =
  SessionPayload (game_id: jsstring) (mode: jsstring)
| StepPayload (use_ai: bool)
| ChatPayload (messages: "message list")

record request =
  url :: jsstring
  payload :: payload

text \<open>
  A \<^verbatim>\<open>CustomEvent\<close>: its type and, when \<^verbatim>\<open>detail\<close> is an object, the
  \<^verbatim>\<open>sessionId\<close> property of the detail.
\<close>

record custom_event =
  event_type :: jsstring
  detail :: "jsval option"

section \<open>The chat panel (chat.js)\<close>

text \<open>
  The mutable state of \<^verbatim>\<open>createChatPanel\<close>: the two closure variables
  \<^verbatim>\<open>conversation\<close> and \<^verbatim>\<open>sessionId\<close>, the value of the textarea, and the
  children of \<^verbatim>\<open>messagesList\<close>, each \<^verbatim>\<open>p\<close> element given by the string
  assigned to its \<^verbatim>\<open>innerHTML\<close>.
\<close>

record chat_panel =
  conversation :: "message list"
  sessionId :: jsval
  textarea_value :: jsstring
  messagesList :: "jsstring list"

text \<open>The four prefixes: U+1F464, U+1F916, U+26A0 U+FE0F and U+2139 U+FE0F.\<close>

definition user_prefix :: jsstring where
  "user_prefix = [0xD83D, 0xDC64]"

definition robot_prefix :: jsstring where
  "robot_prefix = [0xD83E, 0xDD16]"

definition warning_prefix :: jsstring where
  "warning_prefix = [0x26A0, 0xFE0F]"

definition info_prefix :: jsstring where
  "info_prefix = [0x2139, 0xFE0F]"

definition appendMessage :: "jsstring list \<Rightarrow> jsstring \<Rightarrow> jsstring \<Rightarrow> jsstring list" where
  "appendMessage container pre txt =
     container @ [ascii ''<span>'' @ pre @ ascii ''</span> '' @ txt]"

definition createChatPanel :: chat_panel where
  "createChatPanel =
     \<lparr>conversation = [], sessionId = JNull, textarea_value = [],
      messagesList = appendMessage [] info_prefix
        (ascii ''Inicia un juego para activar la conversaci'' @ [0xF3]
           @ ascii ''n con Gemma 2.'')\<rparr>"

definition updateSession :: "jsval \<Rightarrow> chat_panel \<Rightarrow> chat_panel" where
  "updateSession ident st =
     (let st1 = st\<lparr>sessionId := ident\<rparr>;
          st2 = st1\<lparr>conversation := []\<rparr>;
          st3 = st2\<lparr>messagesList := []\<rparr>
      in st3\<lparr>messagesList := appendMessage (messagesList st3) info_prefix
           (ascii ''La sesi'' @ [0xF3] @ ascii ''n est'' @ [0xE1]
              @ ascii '' lista para conversar.'')\<rparr>)"

text \<open>
  The submit handler is an \<^verbatim>\<open>async\<close> function. \<open>submit_begin\<close> is its
  synchronous part, up to the \<^verbatim>\<open>await\<close>: it returns the new state and the
  request issued, \<open>None\<close> on the early return. \<open>submit_resume\<close> is the
  continuation that runs when the request has settled; it reads the closure
  variables as they are at that moment. \<^verbatim>\<open>event.preventDefault()\<close> acts on
  the event alone and \<^verbatim>\<open>scrollTop\<close> on the view alone; neither is part of
  the state.
\<close>

definition submit_begin :: "chat_panel \<Rightarrow> chat_panel \<times> request option" where
  "submit_begin st =
     (if trim (textarea_value st) = [] \<or> \<not> truthy (sessionId st) then (st, None)
      else
        let userMessage = \<lparr>role = ascii ''user'', content = trim (textarea_value st)\<rparr>;
            st1 = st\<lparr>conversation := conversation st @ [userMessage]\<rparr>;
            st2 = st1\<lparr>messagesList :=
                    appendMessage (messagesList st1) user_prefix (content userMessage)\<rparr>;
            st3 = st2\<lparr>textarea_value := []\<rparr>
        in (st3,
            Some \<lparr>url = ascii ''/api/sessions/'' @ to_string (sessionId st3) @ ascii ''/chat'',
                  payload = ChatPayload (conversation st3)\<rparr>))"

definition submit_resume :: "chat_panel \<Rightarrow> jsstring + jsstring option \<Rightarrow> chat_panel" where
  "submit_resume st response =
     (case response of
        Inr r \<Rightarrow>
          let reply = (case r of None \<Rightarrow> [] | Some s \<Rightarrow> s);
              st1 = st\<lparr>conversation :=
                      conversation st @ [\<lparr>role = ascii ''assistant'', content = reply\<rparr>]\<rparr>
          in st1\<lparr>messagesList := appendMessage (messagesList st1) robot_prefix reply\<rparr>
      | Inl msg \<Rightarrow>
          st\<lparr>messagesList := appendMessage (messagesList st) warning_prefix
               (ascii ''Error al contactar a Gemma: '' @ msg)\<rparr>)"

text \<open>
  One whole submission with no other event between the request and its
  response; \<open>server\<close> gives the outcome of the request.
\<close>

definition form_submit ::
  "(request \<Rightarrow> jsstring + jsstring option) \<Rightarrow> chat_panel \<Rightarrow> chat_panel" where
  "form_submit server st =
     (case submit_begin st of
        (st', None) \<Rightarrow> st'
      | (st', Some req) \<Rightarrow> submit_resume st' (server req))"

section \<open>The game panel (game.js)\<close>

text \<open>
  The mutable state of \<^verbatim>\<open>createGamePanel\<close>: the closure variables
  \<^verbatim>\<open>sessionId\<close> and \<^verbatim>\<open>useAi\<close>, the text of the status line, the
  \<^verbatim>\<open>disabled\<close> flag of the step button, the value of the game select and the
  text last handed to \<^verbatim>\<open>drawText\<close>. \<^verbatim>\<open>fetchGames\<close> and the user fill and
  change the select; its value is arbitrary in every statement below.
\<close>

record game_panel =
  game_sessionId :: jsval
  useAi :: bool
  status_text :: jsstring
  stepButton_disabled :: bool
  select_value :: jsstring
  canvas_text :: jsstring

definition createGamePanel :: game_panel where
  "createGamePanel =
     \<lparr>game_sessionId = JNull, useAi = False,
      status_text = ascii ''Sin sesi'' @ [0xF3] @ ascii ''n activa'',
      stepButton_disabled = True, select_value = [],
      canvas_text = ascii ''Selecciona un juego y presiona Iniciar para comenzar.''\<rparr>"

definition aiToggle_change :: "bool \<Rightarrow> game_panel \<Rightarrow> game_panel" where
  "aiToggle_change checked st = st\<lparr>useAi := checked\<rparr>"

text \<open>
  The click handlers are \<^verbatim>\<open>async\<close> too. The synchronous part changes no
  state and issues at most one request; the continuation takes the outcome.
  The start handler keeps \<^verbatim>\<open>gameId\<close> as a constant of its closure.
\<close>

definition startButton_click :: "game_panel \<Rightarrow> request option" where
  "startButton_click st =
     (let gameId = select_value st
      in if gameId = [] then None
         else Some \<lparr>url = ascii ''/api/sessions'',
                    payload = SessionPayload gameId (ascii ''coop'')\<rparr>)"

definition startButton_resume ::
  "jsstring \<Rightarrow> game_panel \<Rightarrow> jsstring + jsval \<Rightarrow> game_panel \<times> custom_event option" where
  "startButton_resume gameId st response =
     (case response of
        Inr session_id \<Rightarrow>
          let st1 = st\<lparr>game_sessionId := session_id\<rparr>;
              st2 = st1\<lparr>status_text := ascii ''Sesi'' @ [0xF3] @ ascii ''n activa: '' @ gameId\<rparr>;
              st3 = st2\<lparr>stepButton_disabled := False\<rparr>
          in (st3, Some \<lparr>event_type = ascii ''session-started'',
                          detail = Some (game_sessionId st3)\<rparr>)
      | Inl msg \<Rightarrow> (st\<lparr>status_text := ascii ''Error al iniciar: '' @ msg\<rparr>, None))"

definition stepButton_click :: "game_panel \<Rightarrow> request option" where
  "stepButton_click st =
     (if \<not> truthy (game_sessionId st) then None
      else Some \<lparr>url = ascii ''/api/sessions/'' @ to_string (game_sessionId st) @ ascii ''/step'',
                 payload = StepPayload (useAi st)\<rparr>)"

text \<open>
  The step response carries \<^verbatim>\<open>observation\<close>, \<^verbatim>\<open>reward\<close> and
  \<^verbatim>\<open>action_taken\<close>, here already converted to strings as the template
  literal converts them.
\<close>

definition stepButton_resume ::
  "game_panel \<Rightarrow> jsstring + (jsstring \<times> jsstring \<times> jsstring) \<Rightarrow> game_panel" where
  "stepButton_resume st response =
     (case response of
        Inr (observation, reward, action_taken) \<Rightarrow>
          st\<lparr>canvas_text := ascii ''Acci'' @ [0xF3] @ ascii ''n: '' @ action_taken
                @ [0x0A] @ ascii ''Recompensa: '' @ reward
                @ [0x0A] @ ascii ''Obs: '' @ observation\<rparr>
      | Inl msg \<Rightarrow> st\<lparr>status_text := ascii ''Error al avanzar: '' @ msg\<rparr>)"

section \<open>The application (app.js)\<close>

text \<open>
  The listener \<^verbatim>\<open>createApp\<close> installs on the game panel for
  \<^verbatim>\<open>session-started\<close>. \<^verbatim>\<open>event.detail ?? {}\<close> makes the session id
  \<^verbatim>\<open>undefined\<close> when there is no detail. The chat panel always has its
  \<^verbatim>\<open>updateSession\<close> function, so the guard of the listener is true.
\<close>

definition session_started_listener :: "custom_event \<Rightarrow> chat_panel \<Rightarrow> chat_panel" where
  "session_started_listener event chatPanel =
     (let ident = (case detail event of None \<Rightarrow> JUndefined | Some s \<Rightarrow> s)
      in updateSession ident chatPanel)"

text \<open>
  A resolved start request in the assembled application: the game panel
  continues, and the event it dispatches runs the listener on the chat panel.
\<close>

definition session_started ::
  "jsstring \<Rightarrow> jsstring + jsval \<Rightarrow> game_panel \<times> chat_panel \<Rightarrow> game_panel \<times> chat_panel" where
  "session_started gameId response app =
     (case startButton_resume gameId (fst app) response of
        (g, None) \<Rightarrow> (g, snd app)
      | (g, Some event) \<Rightarrow> (g, session_started_listener event (snd app)))"

section \<open>The Session Control Core, modelled from the specification\<close>

text \<open>
  The front end only calls the session service; the service itself is not part
  of the JavaScript sources. Its components are modelled here from the words of
  the specification. The emulator, the language-model oracle, the Action Codec
  and the Reward Engine are parameters of the model (\<open>environment\<close>), so every
  statement below holds for all of them.
\<close>

subsection \<open>Observations and conversation turns\<close>

text \<open>
  Modelled from the spec: Observation (section 3), absent from the sources: "a
  compact structured encoding ... e.g. score delta, lives/health, screen-region
  digest, terminal flag".
\<close>

record Observation =
  score_delta :: int
  lives :: nat
  screen_digest :: string
  terminal :: bool

text \<open>
  Modelled from the spec: ConversationTurn (section 3), absent from the sources:
  "role (user|assistant|system), text content, and an optional linked
  Observation reference".
\<close>

datatype turn_role = User | Assistant | System

record ConversationTurn =
  turn_role :: turn_role
  turn_text :: string
  linked_observation :: "Observation option"

subsection \<open>Context Store\<close>

text \<open>
  Modelled from the spec: the budget of the Context Store (section 4.5), absent
  from the sources: "a per-session maximum stored-turn count and an approximate
  content-size budget". The content size of a store is the total length of its
  texts.
\<close>

record budget =
  max_turns :: nat
  max_size :: nat

text \<open>
  Modelled from the spec: a grounding turn (glossary, section 4.1), absent from
  the sources: the state-grounding turns are those of role \<open>system\<close>.
\<close>

definition is_grounding :: "ConversationTurn \<Rightarrow> bool" where
  "is_grounding t = (turn_role t = System)"

text \<open>
  Modelled from the spec: the measure of the "approximate content-size budget"
  (section 4.5), absent from the sources.
\<close>

definition content_size :: "ConversationTurn list \<Rightarrow> nat" where
  "content_size ts = sum_list (map (\<lambda>t. length (turn_text t)) ts)"

text \<open>
  Modelled from the spec: the store is within its budget when neither the turn
  count nor the content size exceeds the configured maximum (section 4.5),
  absent from the sources.
\<close>

definition within_budget :: "budget \<Rightarrow> ConversationTurn list \<Rightarrow> bool" where
  "within_budget b ts = (length ts \<le> max_turns b \<and> content_size ts \<le> max_size b)"

text \<open>
  Modelled from the spec: eviction (sections 3 and 4.5), absent from the
  sources: "eviction removes oldest non-system-grounding turns first,
  preserving the latest grounding turn"; "truncation never removes the most
  recent system grounding turn". A store is a list with its oldest turn first.
  \<open>drop_oldest_dialogue\<close> removes the oldest turn that is not a grounding turn.
  \<open>evict_one\<close> removes that turn when there is one and otherwise the oldest
  grounding turn; \<open>evictable\<close> says that a turn other than the latest
  grounding turn is left to remove. \<open>evict\<close> removes turns one at a time
  until the store is within its budget or nothing may be removed.
\<close>

fun drop_oldest_dialogue :: "ConversationTurn list \<Rightarrow> ConversationTurn list" where
  "drop_oldest_dialogue [] = []"
| "drop_oldest_dialogue (t # ts) =
     (if is_grounding t then t # drop_oldest_dialogue ts else ts)"

definition evictable :: "ConversationTurn list \<Rightarrow> bool" where
  "evictable ts = (list_ex (\<lambda>t. \<not> is_grounding t) ts \<or> 1 < length ts)"

definition evict_one :: "ConversationTurn list \<Rightarrow> ConversationTurn list" where
  "evict_one ts =
     (if list_ex (\<lambda>t. \<not> is_grounding t) ts then drop_oldest_dialogue ts else tl ts)"

function evict :: "budget \<Rightarrow> ConversationTurn list \<Rightarrow> ConversationTurn list" where
  "evict b ts =
     (if within_budget b ts \<or> \<not> evictable ts then ts else evict b (evict_one ts))"
  by pat_completeness auto
termination
proof (relation "measure (\<lambda>(b, ts). length ts)")
  show "wf (measure (\<lambda>(b, ts). length ts))" by simp
next
  fix b :: budget and ts :: "ConversationTurn list"
  assume "\<not> (within_budget b ts \<or> \<not> evictable ts)"
  then have ev: "evictable ts" by simp
  have shorter: "list_ex (\<lambda>t. \<not> is_grounding t) xs \<Longrightarrow>
      length (drop_oldest_dialogue xs) < length xs" for xs
    by (induction xs) auto
  have "length (evict_one ts) < length ts"
  proof (cases "list_ex (\<lambda>t. \<not> is_grounding t) ts")
    case True
    then show ?thesis by (simp add: evict_one_def shorter)
  next
    case False
    with ev have "1 < length ts" by (simp add: evictable_def)
    with False show ?thesis by (simp add: evict_one_def)
  qed
  then show "((b, evict_one ts), (b, ts)) \<in> measure (\<lambda>(b, ts). length ts)" by simp
qed

declare evict.simps [simp del]

text \<open>
  Modelled from the spec: the operations of the Context Store (section 4.5),
  absent from the sources: "Append(sessionId, turn)", "Recent(sessionId, limit)
  -> ordered sequence of ConversationTurn (restartable read, non-destructive)"
  and "Reset(sessionId) clears history". The store keeps one list per session
  id; \<open>Append\<close> adds the turn at the end and enforces the budget.
\<close>

type_synonym context_store = "nat \<Rightarrow> ConversationTurn list"

definition Append :: "budget \<Rightarrow> context_store \<Rightarrow> nat \<Rightarrow> ConversationTurn \<Rightarrow> context_store" where
  "Append b cs sid t = cs(sid := evict b (cs sid @ [t]))"

definition Recent :: "context_store \<Rightarrow> nat \<Rightarrow> nat \<Rightarrow> ConversationTurn list" where
  "Recent cs sid limit = (let ts = cs sid in drop (length ts - limit) ts)"

definition Reset :: "context_store \<Rightarrow> nat \<Rightarrow> context_store" where
  "Reset cs sid = cs(sid := [])"

text \<open>
  A finite sequence of \<open>Append\<close> calls, each with its session id, and the turns
  such a sequence appends to one session.
\<close>

definition Appends ::
  "budget \<Rightarrow> context_store \<Rightarrow> (nat \<times> ConversationTurn) list \<Rightarrow> context_store" where
  "Appends b cs calls = foldl (\<lambda>c (sid, t). Append b c sid t) cs calls"

definition appended :: "(nat \<times> ConversationTurn) list \<Rightarrow> nat \<Rightarrow> ConversationTurn list" where
  "appended calls sid = map snd (filter (\<lambda>c. fst c = sid) calls)"

subsection \<open>Sessions, actions and results\<close>

text \<open>
  Modelled from the spec: the control modes of a Session (section 3) and the
  Actor of the glossary, absent from the sources.
\<close>

datatype control_mode = HumanOnly | AiOnly | CoopTurn | CoopBlend

datatype actor = Human | Ai

text \<open>
  Modelled from the spec: the error taxonomy (section 7), absent from the
  sources.
\<close>

datatype error_kind =
  UnknownGame | EmulatorInitFailed | SessionNotFound | SessionTerminated
| MissingHumanAction | UnparseableAction | OracleTimeout | OracleUnavailable
| PersistenceFailed

text \<open>
  Modelled from the spec: Action (section 3), absent from the sources: "a
  canonical set of simultaneous button-press flags ... plus an optional
  hold-duration in steps".
\<close>

record Action =
  buttons :: "string set"
  hold_duration :: "nat option"

text \<open>
  Modelled from the spec: the optional human action of \<open>Step\<close> (section 4.1),
  absent from the sources. It is absent, or supplies an action, or is the
  explicit opt-out of section 4.2 ("unless the human explicitly opts out for
  that step").
\<close>

datatype human_input = NoInput | Supplied Action | OptOut

text \<open>
  Modelled from the spec: ActionTaken and its annotations (section 4.2), absent
  from the sources: \<open>ai_fallback\<close>, \<open>overridden_human\<close>, and the human action
  that \<open>ai-only\<close> records "as advisory only".
\<close>

record ActionTaken =
  action :: Action
  ai_fallback :: bool
  overridden_human :: bool
  advisory :: "Action option"

text \<open>
  Modelled from the spec: RewardEvent (section 3), absent from the sources:
  "scalar reward, source observation pair, and a tagged list of discrete
  notable events".
\<close>

record RewardEvent =
  reward :: int
  observation_pair :: "Observation \<times> Observation"
  events :: "string list"

text \<open>
  Modelled from the spec: the language-model runtime of section 6, absent from
  the sources: "a request/response call taking a prompt (ordered dialogue turns
  plus a grounding summary) and returning free text ... treated as fallible and
  latent". An answer is the free text or one of the two failures of section 7.
\<close>

datatype oracle_reply = Reply string | TimedOut | Unavailable

record prompt =
  dialogue :: "ConversationTurn list"
  summary :: string

text \<open>
  Modelled from the spec: the collaborators of the core (sections 2 and 6),
  absent from the sources, as parameters: the catalog of games; the Emulator
  Adapter (\<open>reset\<close> fails or gives a handle and the first observation,
  \<open>step\<close> gives the next handle and observation); the oracle, which for the
  attempt number and the prompt gives its answer and the time the answer
  takes; \<open>Decode\<close> of the Action Codec; \<open>Score\<close> of the Reward Engine; and
  the rendering of an observation as the grounding summary.
\<close>

record 'h environment =
  catalog :: "string list"
  emu_reset :: "string \<Rightarrow> ('h \<times> Observation) option"
  emu_step :: "'h \<Rightarrow> Action \<Rightarrow> 'h \<times> Observation"
  llm :: "nat \<Rightarrow> prompt \<Rightarrow> oracle_reply \<times> nat"
  Decode :: "string \<Rightarrow> error_kind + Action"
  Score :: "Observation \<Rightarrow> Observation \<Rightarrow> RewardEvent"
  render :: "Observation \<Rightarrow> string"

text \<open>
  Modelled from the spec: the configuration the text refers to, absent from
  the sources: the request timeout of the oracle (section 5), the "configured
  default action" (section 4.2), the number of recent turns of a prompt and the
  budget of the Context Store (section 4.5).
\<close>

record config =
  request_timeout :: nat
  default_action :: Action
  recent_limit :: nat
  context_budget :: budget

text \<open>
  Modelled from the spec: Session (section 3), absent from the sources: game
  identifier, emulator handle, control mode and step counter; \<open>latest\<close> is the
  most recent observation, whose terminal flag is the lifecycle state that
  \<open>Step\<close> tests. The registry of the Session Manager maps session ids to
  sessions and holds the Context Store.
\<close>

record 'h session =
  game :: string
  emulator :: 'h
  control_mode :: control_mode
  step_counter :: nat
  latest :: Observation

record 'h manager =
  sessions :: "nat \<Rightarrow> 'h session option"
  next_id :: nat
  store :: context_store

definition new_manager :: "'h manager" where
  "new_manager = \<lparr>sessions = (\<lambda>sid. None), next_id = 0, store = (\<lambda>sid. [])\<rparr>"

text \<open>
  Modelled from the spec: the result of \<open>Step\<close> (section 4.1), absent from the
  sources: "(Observation, Reward, ActionTaken, Actor)". \<open>oracle_wait\<close> is added
  to it: the time the step spent waiting for the oracle.
\<close>

record step_result =
  observation :: Observation
  step_reward :: RewardEvent
  action_taken :: ActionTaken
  actor :: actor
  oracle_wait :: nat

subsection \<open>Control Arbiter\<close>

text \<open>
  Modelled from the spec: the oracle call "with a request timeout" (section
  4.2), "bounded by a hard timeout" (section 5), absent from the sources. An
  answer that takes the whole timeout or longer is cut off at the timeout and
  counts as a timeout.
\<close>

definition invoke_oracle ::
  "nat \<Rightarrow> (prompt \<Rightarrow> oracle_reply \<times> nat) \<Rightarrow> prompt \<Rightarrow> oracle_reply \<times> nat" where
  "invoke_oracle limit call p =
     (case call p of (r, t) \<Rightarrow> if limit \<le> t then (TimedOut, limit) else (r, t))"

definition oracle_failed :: "oracle_reply \<Rightarrow> bool" where
  "oracle_failed r = (case r of Reply raw \<Rightarrow> False | TimedOut \<Rightarrow> True | Unavailable \<Rightarrow> True)"

text \<open>
  Modelled from the spec: the two prompts of the AI decision procedure (section
  4.2), absent from the sources: "a bounded prompt from the most recent
  ConversationTurns plus a rendered summary of the latest Observation", and
  for the retry "a shorter prompt (summary-only, no dialogue history)".
\<close>

definition full_prompt :: "'h environment \<Rightarrow> ConversationTurn list \<Rightarrow> Observation \<Rightarrow> prompt" where
  "full_prompt env recent obs = \<lparr>dialogue = recent, summary = render env obs\<rparr>"

definition short_prompt :: "'h environment \<Rightarrow> Observation \<Rightarrow> prompt" where
  "short_prompt env obs = \<lparr>dialogue = [], summary = render env obs\<rparr>"

text \<open>
  Modelled from the spec: the AI decision procedure (sections 4.2 and 4.3),
  absent from the sources: "on success, pass the raw text reply to the Action
  Codec. On oracle timeout or transport failure, retry once ...; on second
  failure, fall back to a configured default action ... and tag the
  ActionTaken result ai_fallback=true"; on \<open>UnparseableAction\<close> the "caller
  applies the fallback policy". The result is the action, the fallback tag and
  the time spent waiting.
\<close>

definition decode_or_default ::
  "'h environment \<Rightarrow> config \<Rightarrow> string \<Rightarrow> Action \<times> bool" where
  "decode_or_default env cfg raw =
     (case Decode env raw of Inr a \<Rightarrow> (a, False) | Inl e \<Rightarrow> (default_action cfg, True))"

definition ai_decide ::
  "'h environment \<Rightarrow> config \<Rightarrow> ConversationTurn list \<Rightarrow> Observation \<Rightarrow> (Action \<times> bool) \<times> nat" where
  "ai_decide env cfg recent obs =
     (case invoke_oracle (request_timeout cfg) (llm env 0) (full_prompt env recent obs) of
        (Reply raw, t1) \<Rightarrow> (decode_or_default env cfg raw, t1)
      | (r1, t1) \<Rightarrow>
          (case invoke_oracle (request_timeout cfg) (llm env 1) (short_prompt env obs) of
             (Reply raw, t2) \<Rightarrow> (decode_or_default env cfg raw, t1 + t2)
           | (r2, t2) \<Rightarrow> ((default_action cfg, True), t1 + t2)))"

text \<open>
  Modelled from the spec: the per-step decision of the Control Arbiter (section
  4.2), absent from the sources. \<open>human-only\<close>: "supplied human action; fails
  with MissingHumanAction if absent". \<open>ai-only\<close>: the AI-decided action, a
  human action "recorded as advisory only". \<open>coop-turn\<close>: "even steps: human;
  odd: AI, unless the human explicitly opts out for that step, in which case
  the AI acts". \<open>coop-blend\<close>: the AI's action is used, annotated
  \<open>overridden_human\<close> when the human's button set differs. \<open>consults_ai\<close>
  says when the decision calls the oracle.
\<close>

definition consults_ai :: "control_mode \<Rightarrow> nat \<Rightarrow> human_input \<Rightarrow> bool" where
  "consults_ai md n h =
     (case md of
        HumanOnly \<Rightarrow> False
      | AiOnly \<Rightarrow> True
      | CoopTurn \<Rightarrow> odd n \<or> h = OptOut
      | CoopBlend \<Rightarrow> True)"

definition human_acts :: "human_input \<Rightarrow> error_kind + (ActionTaken \<times> actor \<times> nat)" where
  "human_acts h =
     (case h of
        Supplied a \<Rightarrow>
          Inr (\<lparr>action = a, ai_fallback = False, overridden_human = False, advisory = None\<rparr>,
               Human, 0)
      | _ \<Rightarrow> Inl MissingHumanAction)"

definition arbitrate ::
  "'h environment \<Rightarrow> config \<Rightarrow> control_mode \<Rightarrow> nat \<Rightarrow> human_input
     \<Rightarrow> ConversationTurn list \<Rightarrow> Observation
     \<Rightarrow> error_kind + (ActionTaken \<times> actor \<times> nat)" where
  "arbitrate env cfg md n h recent obs =
     (case md of
        HumanOnly \<Rightarrow> human_acts h
      | AiOnly \<Rightarrow>
          (case ai_decide env cfg recent obs of
             ((a, fb), w) \<Rightarrow>
               Inr (\<lparr>action = a, ai_fallback = fb, overridden_human = False,
                     advisory = (case h of Supplied x \<Rightarrow> Some x | _ \<Rightarrow> None)\<rparr>, Ai, w))
      | CoopTurn \<Rightarrow>
          (if even n \<and> h \<noteq> OptOut then human_acts h
           else
             (case ai_decide env cfg recent obs of
                ((a, fb), w) \<Rightarrow>
                  Inr (\<lparr>action = a, ai_fallback = fb, overridden_human = False,
                        advisory = None\<rparr>, Ai, w)))
      | CoopBlend \<Rightarrow>
          (case ai_decide env cfg recent obs of
             ((a, fb), w) \<Rightarrow>
               Inr (\<lparr>action = a, ai_fallback = fb,
                     overridden_human =
                       (case h of Supplied x \<Rightarrow> buttons x \<noteq> buttons a | _ \<Rightarrow> False),
                     advisory = None\<rparr>, Ai, w)))"

subsection \<open>Session Manager\<close>

text \<open>
  Modelled from the spec: \<open>CreateSession\<close> (section 4.1), absent from the
  sources: "validates gameId against the catalog ...; initializes the Emulator
  Adapter via reset; fails with UnknownGame if gameId is not in the catalog,
  EmulatorInitFailed if adapter initialization errors".
\<close>

definition CreateSession ::
  "'h environment \<Rightarrow> 'h manager \<Rightarrow> string \<Rightarrow> control_mode \<Rightarrow> error_kind + (nat \<times> 'h manager)" where
  "CreateSession env m gameId md =
     (if gameId \<notin> set (catalog env) then Inl UnknownGame
      else
        (case emu_reset env gameId of
           None \<Rightarrow> Inl EmulatorInitFailed
         | Some (h, obs) \<Rightarrow>
             Inr (next_id m,
                  m\<lparr>sessions := (sessions m)(next_id m \<mapsto>
                       \<lparr>game = gameId, emulator = h, control_mode = md,
                        step_counter = 0, latest = obs\<rparr>),
                    next_id := Suc (next_id m)\<rparr>)))"

text \<open>
  Modelled from the spec: \<open>Step\<close> (sections 2 and 4.1), absent from the
  sources: it "fails with SessionNotFound if unknown, ... SessionTerminated if
  the session's terminal flag was already set by a prior observation"; then
  the "Control Arbiter resolves the actor and action", the "Emulator Adapter
  executes the action", the "Reward Engine scores the transition" and the
  "Context Store is updated": "every successful Step appends one
  ConversationTurn (state-grounding, role system) to the Context Store when
  the control mode involves the AI actor". A failure changes no state.
\<close>

definition involves_ai :: "control_mode \<Rightarrow> bool" where
  "involves_ai md = (md \<noteq> HumanOnly)"

definition Step ::
  "'h environment \<Rightarrow> config \<Rightarrow> 'h manager \<Rightarrow> nat \<Rightarrow> human_input
     \<Rightarrow> error_kind + (step_result \<times> 'h manager)" where
  "Step env cfg m sid h =
     (case sessions m sid of
        None \<Rightarrow> Inl SessionNotFound
      | Some s \<Rightarrow>
          if terminal (latest s) then Inl SessionTerminated
          else
            (case arbitrate env cfg (control_mode s) (step_counter s) h
                    (Recent (store m) sid (recent_limit cfg)) (latest s) of
               Inl e \<Rightarrow> Inl e
             | Inr (taken, who, w) \<Rightarrow>
                 (case emu_step env (emulator s) (action taken) of
                    (h', obs) \<Rightarrow>
                      Inr (\<lparr>observation = obs, step_reward = Score env (latest s) obs,
                            action_taken = taken, actor = who, oracle_wait = w\<rparr>,
                           m\<lparr>sessions := (sessions m)(sid \<mapsto>
                                s\<lparr>emulator := h', step_counter := Suc (step_counter s),
                                  latest := obs\<rparr>),
                             store :=
                               (if involves_ai (control_mode s)
                                then Append (context_budget cfg) (store m) sid
                                       \<lparr>turn_role = System, turn_text = render env obs,
                                        linked_observation = Some obs\<rparr>
                                else store m)\<rparr>))))"

text \<open>
  Modelled from the spec: \<open>CloseSession\<close> (section 4.1), absent from the
  sources: "releases the emulator handle; idempotent".
\<close>

definition CloseSession :: "'h manager \<Rightarrow> nat \<Rightarrow> 'h manager" where
  "CloseSession m sid = m\<lparr>sessions := (sessions m)(sid := None)\<rparr>"

subsection \<open>A deployment for the concrete evaluations\<close>

text \<open>
  One game, an emulator whose handle counts the steps and whose observation
  never changes, an oracle that takes 7 time units for every answer against a
  request timeout of 5, and a codec that knows the single token \<open>RIGHT\<close>.
  \<open>sf2_started\<close> is the registry after \<open>CreateSession\<close> of \<open>sf2\<close> in mode
  \<open>coop-turn\<close>.
\<close>

definition quiet :: Observation where
  "quiet = \<lparr>score_delta = 0, lives = 3, screen_digest = ''title'', terminal = False\<rparr>"

definition right :: Action where
  "right = \<lparr>buttons = {''RIGHT''}, hold_duration = None\<rparr>"

definition noop :: Action where
  "noop = \<lparr>buttons = {}, hold_duration = None\<rparr>"

definition sf2_env :: "nat environment" where
  "sf2_env =
     \<lparr>catalog = [''sf2''],
      emu_reset = (\<lambda>g. Some (0, quiet)),
      emu_step = (\<lambda>h a. (Suc h, quiet)),
      llm = (\<lambda>i p. (Reply ''RIGHT'', 7)),
      Decode = (\<lambda>raw. if raw = ''RIGHT'' then Inr right else Inl UnparseableAction),
      Score = (\<lambda>p c. \<lparr>reward = score_delta c, observation_pair = (p, c), events = []\<rparr>),
      render = (\<lambda>ob. ''lives=3'')\<rparr>"

definition sf2_cfg :: config where
  "sf2_cfg =
     \<lparr>request_timeout = 5, default_action = noop, recent_limit = 4,
      context_budget = \<lparr>max_turns = 8, max_size = 200\<rparr>\<rparr>"

definition sf2_started :: "nat manager" where
  "sf2_started =
     new_manager\<lparr>sessions := (sessions new_manager)(0 \<mapsto>
          \<lparr>game = ''sf2'', emulator = 0, control_mode = CoopTurn,
           step_counter = 0, latest = quiet\<rparr>),
        next_id := Suc 0\<rparr>"

definition grounding :: "string \<Rightarrow> ConversationTurn" where
  "grounding txt = \<lparr>turn_role = System, turn_text = txt, linked_observation = None\<rparr>"

definition said :: "turn_role \<Rightarrow> string \<Rightarrow> ConversationTurn" where
  "said who txt = \<lparr>turn_role = who, turn_text = txt, linked_observation = None\<rparr>"

section \<open>Properties of the chat panel\<close>

lemma updateSession_fields:
  "conversation (updateSession ident st) = []"
  "sessionId (updateSession ident st) = ident"
  by (simp_all add: updateSession_def Let_def)

text \<open>
  Claim C6. Rebinding the chat panel to a session clears the conversation:
  after \<open>updateSession ident\<close> the stored conversation is empty and the active
  session id is \<open>ident\<close>, whatever the conversation was before; the
  \<^verbatim>\<open>session-started\<close> listener of the application does exactly this with the
  id of the event, and so does a resolved start request.
\<close>

theorem updateSession_clears_conversation:
  "conversation (updateSession ident st) = []
   \<and> sessionId (updateSession ident st) = ident
   \<and> conversation (session_started_listener
        \<lparr>event_type = ty, detail = Some ident\<rparr> st) = []
   \<and> sessionId (session_started_listener
        \<lparr>event_type = ty, detail = Some ident\<rparr> st) = ident
   \<and> conversation (snd (session_started gameId (Inr ident) (g, st))) = []
   \<and> sessionId (snd (session_started gameId (Inr ident) (g, st))) = ident"
  by (simp add: updateSession_fields session_started_listener_def
      session_started_def startButton_resume_def Let_def)

text \<open>
  Claim C8. Submitting the chat form when the trimmed text of the textarea is
  empty, or when the panel holds no session id (\<^verbatim>\<open>null\<close>, as before the
  first \<open>updateSession\<close>, or any other falsy value), does nothing: the
  conversation, the rendered messages and the textarea are unchanged and no
  request is issued.
\<close>

theorem chat_submit_guard:
  "trim (textarea_value st) = [] \<or> \<not> truthy (sessionId st) \<Longrightarrow>
     submit_begin st = (st, None) \<and> form_submit server st = st"
  by (auto simp add: submit_begin_def form_submit_def)

theorem chat_submit_guard_witness:
  "trim (textarea_value (createChatPanel\<lparr>textarea_value := [0x20, 104, 111, 108, 97]\<rparr>))
     = [104, 111, 108, 97]
   \<and> sessionId (createChatPanel\<lparr>textarea_value := [0x20, 104, 111, 108, 97]\<rparr>) = JNull
   \<and> submit_begin (createChatPanel\<lparr>textarea_value := [0x20, 104, 111, 108, 97]\<rparr>)
     = (createChatPanel\<lparr>textarea_value := [0x20, 104, 111, 108, 97]\<rparr>, None)
   \<and> form_submit (\<lambda>r. Inr None) (createChatPanel\<lparr>textarea_value := [0x20, 104, 111, 108, 97]\<rparr>)
     = createChatPanel\<lparr>textarea_value := [0x20, 104, 111, 108, 97]\<rparr>"
  using chat_submit_guard [of "createChatPanel\<lparr>textarea_value := [0x20, 104, 111, 108, 97]\<rparr>"
      "\<lambda>r. Inr None"]
  by (simp add: createChatPanel_def trim_def is_white_space_def)

text \<open>
  Claim C9. A submission with non-empty trimmed text and an active session
  issues one request whose message list is the conversation followed by the
  new user turn. When the request succeeds the conversation has grown by
  exactly that user turn followed by one assistant turn; when it fails the
  conversation has grown by the user turn alone, and the message list of the
  next request still holds it. The handler changes the conversation in no
  other way, whatever happens between the request and its response: its
  synchronous part appends the user turn at the end or, when the guard
  returns, leaves the conversation as it is; its continuation, in whatever
  state it runs, appends one assistant turn at the end on success and leaves
  the conversation as it is on failure. So the conversation before either part
  is a prefix of the conversation after it, and two submissions that overlap
  and both succeed append their two user turns and then their two assistant
  turns.
\<close>

theorem chat_submit_appends:
  "(trim (textarea_value st) \<noteq> [] \<and> truthy (sessionId st) \<longrightarrow>
     (\<exists>req. snd (submit_begin st) = Some req
        \<and> payload req = ChatPayload (conversation st
             @ [\<lparr>role = ascii ''user'', content = trim (textarea_value st)\<rparr>])
        \<and> (\<forall>r. server req = Inr r \<longrightarrow>
              conversation (form_submit server st) =
                conversation st
                @ [\<lparr>role = ascii ''user'', content = trim (textarea_value st)\<rparr>,
                   \<lparr>role = ascii ''assistant'',
                    content = (case r of None \<Rightarrow> [] | Some s \<Rightarrow> s)\<rparr>])
        \<and> (\<forall>e. server req = Inl e \<longrightarrow>
              conversation (form_submit server st) =
                conversation st
                @ [\<lparr>role = ascii ''user'', content = trim (textarea_value st)\<rparr>]
              \<and> (\<forall>t. trim t \<noteq> [] \<longrightarrow>
                    (\<exists>req2. snd (submit_begin (form_submit server st\<lparr>textarea_value := t\<rparr>))
                         = Some req2
                       \<and> payload req2 = ChatPayload (conversation st
                            @ [\<lparr>role = ascii ''user'', content = trim (textarea_value st)\<rparr>,
                               \<lparr>role = ascii ''user'', content = trim t\<rparr>]))))))
   \<and> (trim (textarea_value st) \<noteq> [] \<and> truthy (sessionId st) \<and> trim t2 \<noteq> [] \<longrightarrow>
        conversation
          (submit_resume
            (submit_resume
              (fst (submit_begin (fst (submit_begin st)\<lparr>textarea_value := t2\<rparr>)))
              (Inr ra))
            (Inr rb)) =
          conversation st
          @ [\<lparr>role = ascii ''user'', content = trim (textarea_value st)\<rparr>,
             \<lparr>role = ascii ''user'', content = trim t2\<rparr>,
             \<lparr>role = ascii ''assistant'',
              content = (case ra of None \<Rightarrow> [] | Some s \<Rightarrow> s)\<rparr>,
             \<lparr>role = ascii ''assistant'',
              content = (case rb of None \<Rightarrow> [] | Some s \<Rightarrow> s)\<rparr>])
   \<and> conversation (fst (submit_begin st)) =
       (if trim (textarea_value st) = [] \<or> \<not> truthy (sessionId st) then conversation st
        else conversation st
          @ [\<lparr>role = ascii ''user'', content = trim (textarea_value st)\<rparr>])
   \<and> conversation (submit_resume cur (Inr rc)) =
       conversation cur
       @ [\<lparr>role = ascii ''assistant'',
           content = (case rc of None \<Rightarrow> [] | Some s \<Rightarrow> s)\<rparr>]
   \<and> conversation (submit_resume cur (Inl ec)) = conversation cur
   \<and> prefix (conversation st) (conversation (fst (submit_begin st)))
   \<and> prefix (conversation cur) (conversation (submit_resume cur response))"
proof -
  have begin_exact: "conversation (fst (submit_begin st)) =
       (if trim (textarea_value st) = [] \<or> \<not> truthy (sessionId st) then conversation st
        else conversation st
          @ [\<lparr>role = ascii ''user'', content = trim (textarea_value st)\<rparr>])"
    by (simp add: submit_begin_def Let_def)
  have resume_ok: "conversation (submit_resume c (Inr r)) =
       conversation c
       @ [\<lparr>role = ascii ''assistant'',
           content = (case r of None \<Rightarrow> [] | Some s \<Rightarrow> s)\<rparr>]" for c r
    by (simp add: submit_resume_def Let_def)
  have resume_failed: "conversation (submit_resume c (Inl e)) = conversation c" for c e
    by (simp add: submit_resume_def)
  have grow: "prefix (conversation st) (conversation (fst (submit_begin st)))"
    by (simp add: begin_exact)
  have resume: "prefix (conversation cur) (conversation (submit_resume cur response))"
    by (cases response) (simp_all add: resume_ok resume_failed)
  have run: "\<exists>req. snd (submit_begin st) = Some req
        \<and> payload req = ChatPayload (conversation st
             @ [\<lparr>role = ascii ''user'', content = trim (textarea_value st)\<rparr>])
        \<and> (\<forall>r. server req = Inr r \<longrightarrow>
              conversation (form_submit server st) =
                conversation st
                @ [\<lparr>role = ascii ''user'', content = trim (textarea_value st)\<rparr>,
                   \<lparr>role = ascii ''assistant'',
                    content = (case r of None \<Rightarrow> [] | Some s \<Rightarrow> s)\<rparr>])
        \<and> (\<forall>e. server req = Inl e \<longrightarrow>
              conversation (form_submit server st) =
                conversation st
                @ [\<lparr>role = ascii ''user'', content = trim (textarea_value st)\<rparr>]
              \<and> (\<forall>t. trim t \<noteq> [] \<longrightarrow>
                    (\<exists>req2. snd (submit_begin (form_submit server st\<lparr>textarea_value := t\<rparr>))
                         = Some req2
                       \<and> payload req2 = ChatPayload (conversation st
                            @ [\<lparr>role = ascii ''user'', content = trim (textarea_value st)\<rparr>,
                               \<lparr>role = ascii ''user'', content = trim t\<rparr>]))))"
    if "trim (textarea_value st) \<noteq> []" and "truthy (sessionId st)"
    using that
    by (auto simp add: submit_begin_def form_submit_def submit_resume_def Let_def)
  have overlap: "conversation
          (submit_resume
            (submit_resume
              (fst (submit_begin (fst (submit_begin st)\<lparr>textarea_value := t2\<rparr>)))
              (Inr ra))
            (Inr rb)) =
          conversation st
          @ [\<lparr>role = ascii ''user'', content = trim (textarea_value st)\<rparr>,
             \<lparr>role = ascii ''user'', content = trim t2\<rparr>,
             \<lparr>role = ascii ''assistant'',
              content = (case ra of None \<Rightarrow> [] | Some s \<Rightarrow> s)\<rparr>,
             \<lparr>role = ascii ''assistant'',
              content = (case rb of None \<Rightarrow> [] | Some s \<Rightarrow> s)\<rparr>]"
    if "trim (textarea_value st) \<noteq> []" and "truthy (sessionId st)" and "trim t2 \<noteq> []"
    using that
    by (simp add: resume_ok submit_begin_def Let_def)
  from run overlap begin_exact resume_ok [of cur rc] resume_failed [of cur ec] grow resume
  show ?thesis by blast
qed

theorem chat_submit_appends_witness:
  "trim [0x20, 104, 105] = [104, 105]
   \<and> trim [98, 121, 101] = [98, 121, 101]
   \<and> truthy (JString [115, 49])
   \<and> conversation (form_submit (\<lambda>r. Inr (Some [111, 107]))
        \<lparr>conversation = [], sessionId = JString [115, 49],
         textarea_value = [0x20, 104, 105], messagesList = []\<rparr>)
      = [\<lparr>role = ascii ''user'', content = [104, 105]\<rparr>,
         \<lparr>role = ascii ''assistant'', content = [111, 107]\<rparr>]
   \<and> conversation (form_submit (\<lambda>r. Inl [53, 48, 48])
        \<lparr>conversation = [], sessionId = JString [115, 49],
         textarea_value = [0x20, 104, 105], messagesList = []\<rparr>)
      = [\<lparr>role = ascii ''user'', content = [104, 105]\<rparr>]
   \<and> conversation
        (submit_resume
          (submit_resume
            (fst (submit_begin
              (fst (submit_begin
                 \<lparr>conversation = [], sessionId = JString [115, 49],
                  textarea_value = [0x20, 104, 105], messagesList = []\<rparr>)
               \<lparr>textarea_value := [98, 121, 101]\<rparr>)))
            (Inr (Some [111, 107])))
          (Inr None))
      = [\<lparr>role = ascii ''user'', content = [104, 105]\<rparr>,
         \<lparr>role = ascii ''user'', content = [98, 121, 101]\<rparr>,
         \<lparr>role = ascii ''assistant'', content = [111, 107]\<rparr>,
         \<lparr>role = ascii ''assistant'', content = []\<rparr>]"
proof -
  let ?st = "\<lparr>conversation = [], sessionId = JString [115, 49],
         textarea_value = [0x20, 104, 105], messagesList = []\<rparr>"
  have t: "trim [0x20, 104, 105] = [104, 105]"
    by (simp add: trim_def is_white_space_def)
  have t2: "trim [98, 121, 101] = [98, 121, 101]"
    by (simp add: trim_def is_white_space_def)
  have pre: "trim (textarea_value ?st) \<noteq> [] \<and> truthy (sessionId ?st)"
    by (simp add: t)
  have pre2: "trim (textarea_value ?st) \<noteq> [] \<and> truthy (sessionId ?st)
      \<and> trim [98, 121, 101] \<noteq> []"
    by (simp add: t t2)
  have ok: "conversation (form_submit (\<lambda>r. Inr (Some [111, 107])) ?st) =
      conversation ?st @ [\<lparr>role = ascii ''user'', content = trim (textarea_value ?st)\<rparr>,
         \<lparr>role = ascii ''assistant'', content = [111, 107]\<rparr>]"
    using chat_submit_appends [of ?st "\<lambda>r. Inr (Some [111, 107])"] pre by fastforce
  have failed: "conversation (form_submit (\<lambda>r. Inl [53, 48, 48]) ?st) =
      conversation ?st @ [\<lparr>role = ascii ''user'', content = trim (textarea_value ?st)\<rparr>]"
    using chat_submit_appends [of ?st "\<lambda>r. Inl [53, 48, 48]"] pre by fastforce
  from chat_submit_appends [where st = ?st and ?t2.0 = "[98, 121, 101]"
      and ra = "Some [111, 107]" and rb = None] pre2
  have both: "conversation
        (submit_resume
          (submit_resume
            (fst (submit_begin (fst (submit_begin ?st)\<lparr>textarea_value := [98, 121, 101]\<rparr>)))
            (Inr (Some [111, 107])))
          (Inr None)) =
      conversation ?st
      @ [\<lparr>role = ascii ''user'', content = trim (textarea_value ?st)\<rparr>,
         \<lparr>role = ascii ''user'', content = trim [98, 121, 101]\<rparr>,
         \<lparr>role = ascii ''assistant'', content = (case Some [111, 107] of None \<Rightarrow> [] | Some s \<Rightarrow> s)\<rparr>,
         \<lparr>role = ascii ''assistant'', content = (case None of None \<Rightarrow> [] | Some s \<Rightarrow> s)\<rparr>]"
    by blast
  from ok failed both show ?thesis by (simp add: t t2)
qed

section \<open>Properties of the game panel\<close>

text \<open>
  Claim C10. Whenever the start button issues its request, the request goes
  to \<^verbatim>\<open>/api/sessions\<close> with the selected game and mode \<^verbatim>\<open>coop\<close>, and it does
  so for every selected game. The request and the continuation are the same
  whatever the AI toggle holds. A change of the toggle writes \<open>useAi\<close> and
  nothing else, and \<open>useAi\<close> is read only as the \<^verbatim>\<open>use_ai\<close> field of the
  step request.
\<close>

theorem start_always_sends_coop:
  "(\<forall>r. startButton_click st = Some r \<longrightarrow>
        url r = ascii ''/api/sessions''
        \<and> payload r = SessionPayload (select_value st) (ascii ''coop''))
   \<and> (select_value st \<noteq> [] \<longrightarrow> (\<exists>r. startButton_click st = Some r))
   \<and> startButton_click (aiToggle_change checked st) = startButton_click st
   \<and> startButton_resume gameId (aiToggle_change checked st) response =
       (aiToggle_change checked (fst (startButton_resume gameId st response)),
        snd (startButton_resume gameId st response))
   \<and> aiToggle_change checked st = st\<lparr>useAi := checked\<rparr>
   \<and> (\<forall>r. stepButton_click (aiToggle_change checked st) = Some r \<longrightarrow>
        url r = ascii ''/api/sessions/'' @ to_string (game_sessionId st) @ ascii ''/step''
        \<and> payload r = StepPayload checked)"
proof -
  have start: "\<forall>r. startButton_click st = Some r \<longrightarrow>
        url r = ascii ''/api/sessions''
        \<and> payload r = SessionPayload (select_value st) (ascii ''coop'')"
    by (auto simp add: startButton_click_def Let_def split: if_splits)
  have issued: "select_value st \<noteq> [] \<longrightarrow> (\<exists>r. startButton_click st = Some r)"
    by (simp add: startButton_click_def Let_def)
  have same: "startButton_click (aiToggle_change checked st) = startButton_click st"
    by (simp add: startButton_click_def aiToggle_change_def)
  have resume: "startButton_resume gameId (aiToggle_change checked st) response =
       (aiToggle_change checked (fst (startButton_resume gameId st response)),
        snd (startButton_resume gameId st response))"
    by (cases response) (simp_all add: startButton_resume_def aiToggle_change_def Let_def)
  have toggle: "aiToggle_change checked st = st\<lparr>useAi := checked\<rparr>"
    by (simp add: aiToggle_change_def)
  have step: "\<forall>r. stepButton_click (aiToggle_change checked st) = Some r \<longrightarrow>
        url r = ascii ''/api/sessions/'' @ to_string (game_sessionId st) @ ascii ''/step''
        \<and> payload r = StepPayload checked"
    by (auto simp add: stepButton_click_def aiToggle_change_def split: if_splits)
  from start issued same resume toggle step show ?thesis by blast
qed

theorem start_always_sends_coop_witness:
  "startButton_click (aiToggle_change True (createGamePanel\<lparr>select_value := [115, 102, 50]\<rparr>))
     = Some \<lparr>url = ascii ''/api/sessions'',
             payload = SessionPayload [115, 102, 50] (ascii ''coop'')\<rparr>
   \<and> stepButton_click (aiToggle_change True
        (createGamePanel\<lparr>game_sessionId := JString [115, 49]\<rparr>))
     = Some \<lparr>url = ascii ''/api/sessions/'' @ [115, 49] @ ascii ''/step'',
             payload = StepPayload True\<rparr>"
proof -
  let ?g = "createGamePanel\<lparr>select_value := [115, 102, 50]\<rparr>"
  let ?h = "createGamePanel\<lparr>game_sessionId := JString [115, 49]\<rparr>"
  have sel: "select_value ?g \<noteq> []" by simp
  note th = start_always_sends_coop [of ?g True "[]" "Inl []"]
  from th have same: "startButton_click (aiToggle_change True ?g) = startButton_click ?g"
    by blast
  from th sel have issued: "\<exists>r. startButton_click ?g = Some r"
    by blast
  from th have sent: "\<forall>r. startButton_click ?g = Some r \<longrightarrow>
        url r = ascii ''/api/sessions''
        \<and> payload r = SessionPayload (select_value ?g) (ascii ''coop'')"
    by blast
  from issued obtain r where r: "startButton_click ?g = Some r" by blast
  with sent have "url r = ascii ''/api/sessions''"
    and "payload r = SessionPayload [115, 102, 50] (ascii ''coop'')" by simp_all
  then have r_eq: "r = \<lparr>url = ascii ''/api/sessions'',
             payload = SessionPayload [115, 102, 50] (ascii ''coop'')\<rparr>"
    by (cases r) simp
  have sid: "game_sessionId ?h = JString [115, 49]" by simp
  have "\<exists>q. stepButton_click (aiToggle_change True ?h) = Some q"
    by (simp add: stepButton_click_def aiToggle_change_def)
  then obtain q where q: "stepButton_click (aiToggle_change True ?h) = Some q" by blast
  with start_always_sends_coop [of ?h True]
  have "url q = ascii ''/api/sessions/'' @ to_string (game_sessionId ?h) @ ascii ''/step''"
    and "payload q = StepPayload True" by blast+
  then have q_eq: "q = \<lparr>url = ascii ''/api/sessions/'' @ [115, 49] @ ascii ''/step'',
             payload = StepPayload True\<rparr>"
    by (cases q) simp
  from same r r_eq q q_eq show ?thesis by simp
qed

section \<open>Properties of the Context Store\<close>

lemma filter_drop_oldest:
  "filter is_grounding (drop_oldest_dialogue xs) = filter is_grounding xs"
  by (induction xs) auto

lemma dialogue_drop_oldest:
  "list_ex (\<lambda>t. \<not> is_grounding t) xs \<Longrightarrow>
   filter (\<lambda>t. \<not> is_grounding t) (drop_oldest_dialogue xs) = tl (filter (\<lambda>t. \<not> is_grounding t) xs)"
  by (induction xs) auto

lemma subseq_drop_oldest: "subseq (drop_oldest_dialogue xs) xs"
  by (induction xs) auto

lemma evict_stops: "within_budget b (evict b ts) \<or> \<not> evictable (evict b ts)"
proof (induction b ts rule: evict.induct)
  case (1 b ts)
  then show ?case by (subst (1 2) evict.simps) auto
qed

lemma not_evictable_cases:
  "\<not> evictable ts \<Longrightarrow> ts = [] \<or> (\<exists>g. ts = [g] \<and> is_grounding g)"
  by (cases ts) (auto simp add: evictable_def)


lemma evict_one_grounding_last:
  assumes "filter is_grounding xs \<noteq> []" and "evictable xs"
  shows "filter is_grounding (evict_one xs) \<noteq> []
     \<and> last (filter is_grounding (evict_one xs)) = last (filter is_grounding xs)"
proof (cases "list_ex (\<lambda>t. \<not> is_grounding t) xs")
  case True
  with assms show ?thesis by (simp add: evict_one_def filter_drop_oldest)
next
  case False
  then have all: "filter is_grounding xs = xs"
    by (simp add: list_ex_iff)
  from False have "filter is_grounding (tl xs) = tl xs"
    by (cases xs) (auto simp add: list_ex_iff)
  moreover from False assms(2) have "1 < length xs" by (simp add: evictable_def)
  then have "tl xs \<noteq> []" and "last (tl xs) = last xs"
    by (cases xs; cases "tl xs"; simp)+
  ultimately show ?thesis using False all by (simp add: evict_one_def)
qed

lemma evict_grounding_last:
  "filter is_grounding xs \<noteq> [] \<Longrightarrow>
     filter is_grounding (evict b xs) \<noteq> []
     \<and> last (filter is_grounding (evict b xs)) = last (filter is_grounding xs)"
proof (induction b xs rule: evict.induct)
  case (1 b ts)
  show ?case
  proof (cases "within_budget b ts \<or> \<not> evictable ts")
    case True
    with 1 show ?thesis by (subst (1 2) evict.simps) simp
  next
    case False
    then have ev: "evictable ts" by simp
    from evict_one_grounding_last [OF "1.prems" ev] "1.IH" [OF False]
    have "filter is_grounding (evict b (evict_one ts)) \<noteq> []
      \<and> last (filter is_grounding (evict b (evict_one ts))) = last (filter is_grounding ts)"
      by simp
    with False show ?thesis by (subst (1 2) evict.simps) simp
  qed
qed

lemma evict_one_order:
  "suffix (filter is_grounding (evict_one xs)) (filter is_grounding xs)
   \<and> suffix (filter (\<lambda>t. \<not> is_grounding t) (evict_one xs)) (filter (\<lambda>t. \<not> is_grounding t) xs)
   \<and> subseq (evict_one xs) xs
   \<and> (filter is_grounding (evict_one xs) \<noteq> filter is_grounding xs \<longrightarrow>
        filter (\<lambda>t. \<not> is_grounding t) xs = [])"
proof (cases "list_ex (\<lambda>t. \<not> is_grounding t) xs")
  case True
  then show ?thesis
    by (simp add: evict_one_def filter_drop_oldest dialogue_drop_oldest subseq_drop_oldest
        suffix_tl)
next
  case False
  then have none: "filter (\<lambda>t. \<not> is_grounding t) xs = []"
    by (simp add: list_ex_iff filter_empty_conv)
  then have "filter (\<lambda>t. \<not> is_grounding t) (tl xs) = []"
    by (cases xs) (auto split: if_splits)
  moreover have "suffix (filter is_grounding (tl xs)) (filter is_grounding xs)"
    by (cases xs) (auto intro: suffix_ConsI)
  moreover have "subseq (tl xs) xs" by (cases xs) auto
  ultimately show ?thesis using False none by (simp add: evict_one_def)
qed

lemma evict_order:
  "suffix (filter is_grounding (evict b xs)) (filter is_grounding xs)
   \<and> suffix (filter (\<lambda>t. \<not> is_grounding t) (evict b xs)) (filter (\<lambda>t. \<not> is_grounding t) xs)
   \<and> subseq (evict b xs) xs
   \<and> (filter is_grounding (evict b xs) \<noteq> filter is_grounding xs \<longrightarrow>
        filter (\<lambda>t. \<not> is_grounding t) (evict b xs) = [])"
proof (induction b xs rule: evict.induct)
  case (1 b ts)
  show ?case
  proof (cases "within_budget b ts \<or> \<not> evictable ts")
    case True
    then have "evict b ts = ts" by (subst evict.simps) simp
    then show ?thesis by simp
  next
    case False
    then have step: "evict b ts = evict b (evict_one ts)" by (subst evict.simps) simp
    note ih = "1.IH" [OF False]
    note one = evict_one_order [of ts]
    from ih one have g: "suffix (filter is_grounding (evict b (evict_one ts))) (filter is_grounding ts)"
      by (blast intro: suffix_order.trans)
    from ih one have d: "suffix (filter (\<lambda>t. \<not> is_grounding t) (evict b (evict_one ts)))
        (filter (\<lambda>t. \<not> is_grounding t) ts)"
      by (blast intro: suffix_order.trans)
    from ih one have s: "subseq (evict b (evict_one ts)) ts"
      by (blast intro: subseq_order.trans)
    have e: "filter (\<lambda>t. \<not> is_grounding t) (evict b (evict_one ts)) = []"
      if neq: "filter is_grounding (evict b (evict_one ts)) \<noteq> filter is_grounding ts"
    proof (cases "filter is_grounding (evict_one ts) = filter is_grounding ts")
      case True
      with neq ih show ?thesis by simp
    next
      case False
      with one have "filter (\<lambda>t. \<not> is_grounding t) ts = []" by blast
      with d show ?thesis by simp
    qed
    from g d s e show ?thesis unfolding step by blast
  qed
qed

lemma Appends_session:
  "Appends b cs calls sid =
     foldl (\<lambda>s t. evict b (s @ [t])) (cs sid) (map snd (filter (\<lambda>c. fst c = sid) calls))"
  unfolding Appends_def
  by (induction calls arbitrary: cs) (auto simp add: Append_def)

lemma appended_invariant:
  "(within_budget b (foldl (\<lambda>s t. evict b (s @ [t])) [] ts)
      \<or> (\<exists>g. foldl (\<lambda>s t. evict b (s @ [t])) [] ts = [g] \<and> is_grounding g))
   \<and> subseq (foldl (\<lambda>s t. evict b (s @ [t])) [] ts) ts
   \<and> (filter is_grounding ts \<noteq> [] \<longrightarrow>
        filter is_grounding (foldl (\<lambda>s t. evict b (s @ [t])) [] ts) \<noteq> []
        \<and> last (filter is_grounding (foldl (\<lambda>s t. evict b (s @ [t])) [] ts))
            = last (filter is_grounding ts))"
proof (induction ts rule: rev_induct)
  case Nil
  then show ?case by (simp add: within_budget_def content_size_def)
next
  case (snoc t ts)
  let ?s = "foldl (\<lambda>s t. evict b (s @ [t])) [] ts"
  have fold: "foldl (\<lambda>s t. evict b (s @ [t])) [] (ts @ [t]) = evict b (?s @ [t])" by simp
  have a: "within_budget b (evict b (?s @ [t]))
      \<or> (\<exists>g. evict b (?s @ [t]) = [g] \<and> is_grounding g)"
    using evict_stops [of b "?s @ [t]"] not_evictable_cases [of "evict b (?s @ [t])"]
    by (auto simp add: within_budget_def content_size_def)
  from snoc have "subseq ?s ts" by blast
  then have "subseq (?s @ [t]) (ts @ [t])" by (simp add: subseq_append')
  with evict_order [of b "?s @ [t]"] have c: "subseq (evict b (?s @ [t])) (ts @ [t])"
    by (blast intro: subseq_order.trans)
  have d: "filter is_grounding (evict b (?s @ [t])) \<noteq> []
        \<and> last (filter is_grounding (evict b (?s @ [t]))) = last (filter is_grounding (ts @ [t]))"
    if ne: "filter is_grounding (ts @ [t]) \<noteq> []"
  proof (cases "is_grounding t")
    case True
    then have "filter is_grounding (?s @ [t]) \<noteq> []" by simp
    from evict_grounding_last [OF this, of b] True show ?thesis by simp
  next
    case False
    with ne have "filter is_grounding ts \<noteq> []" by simp
    with snoc have "filter is_grounding ?s \<noteq> []"
      and l: "last (filter is_grounding ?s) = last (filter is_grounding ts)" by blast+
    then have "filter is_grounding (?s @ [t]) \<noteq> []" by simp
    from evict_grounding_last [OF this, of b] False l show ?thesis by simp
  qed
  from a c d show ?case unfolding fold by blast
qed

text \<open>
  Claim C4, as amended. After every finite sequence of \<open>Append\<close> calls from
  the empty store, and for every session: the stored turns are within the
  turn and size budget, or the store has been reduced to one grounding turn
  alone; so the budget is never exceeded when it admits one turn and every
  grounding turn appended fits the size budget on its own. The store holds
  appended turns only, in their order, and its latest grounding turn is the
  most recent grounding turn appended. An eviction keeps a suffix of the
  grounding turns and a suffix of the other turns, and it removes a grounding
  turn only when no other turn is left.
\<close>

theorem context_store_budget:
  "(within_budget b (Appends b (\<lambda>k. []) calls sid)
      \<or> (\<exists>g. Appends b (\<lambda>k. []) calls sid = [g] \<and> is_grounding g))
   \<and> (1 \<le> max_turns b
        \<and> (\<forall>t \<in> set (appended calls sid). is_grounding t \<longrightarrow> length (turn_text t) \<le> max_size b)
        \<longrightarrow> within_budget b (Appends b (\<lambda>k. []) calls sid))
   \<and> subseq (Appends b (\<lambda>k. []) calls sid) (appended calls sid)
   \<and> (filter is_grounding (appended calls sid) \<noteq> [] \<longrightarrow>
        filter is_grounding (Appends b (\<lambda>k. []) calls sid) \<noteq> []
        \<and> last (filter is_grounding (Appends b (\<lambda>k. []) calls sid))
            = last (filter is_grounding (appended calls sid)))
   \<and> suffix (filter is_grounding (evict b xs)) (filter is_grounding xs)
   \<and> suffix (filter (\<lambda>t. \<not> is_grounding t) (evict b xs))
        (filter (\<lambda>t. \<not> is_grounding t) xs)
   \<and> (filter is_grounding (evict b xs) \<noteq> filter is_grounding xs \<longrightarrow>
        filter (\<lambda>t. \<not> is_grounding t) (evict b xs) = [])"
proof -
  let ?s = "Appends b (\<lambda>k. []) calls sid"
  have eq: "?s = foldl (\<lambda>s t. evict b (s @ [t])) [] (appended calls sid)"
    by (simp add: Appends_session appended_def)
  note inv = appended_invariant [of b "appended calls sid", folded eq]
  from inv have a: "within_budget b ?s \<or> (\<exists>g. ?s = [g] \<and> is_grounding g)" by blast
  from inv have c: "subseq ?s (appended calls sid)" by blast
  have fits: "within_budget b ?s"
    if one: "1 \<le> max_turns b"
      and small: "\<forall>t \<in> set (appended calls sid). is_grounding t \<longrightarrow> length (turn_text t) \<le> max_size b"
  proof (rule disjE [OF a])
    assume "\<exists>g. ?s = [g] \<and> is_grounding g"
    then obtain g where g: "?s = [g]" "is_grounding g" by blast
    with c have "g \<in> set (appended calls sid)"
      by (metis list.set_intros(1) subseq_order.dual_order.refl subseq_singleton_left
          list_emb_set)
    with small g have "length (turn_text g) \<le> max_size b" by blast
    with one g show ?thesis by (simp add: within_budget_def content_size_def)
  qed
  from a fits c inv evict_order [of b xs] show ?thesis by blast
qed

text \<open>
  The claim as stated fails: a grounding turn longer than the size budget is
  retained, and the store then exceeds the budget.
\<close>

theorem context_store_budget_counterexample:
  "\<not> within_budget \<lparr>max_turns = 4, max_size = 8\<rparr>
       (Appends \<lparr>max_turns = 4, max_size = 8\<rparr> (\<lambda>k. [])
          [(0, \<lparr>turn_role = System, turn_text = ''score=12345'', linked_observation = None\<rparr>)] 0)"
  by (simp add: Appends_def Append_def evict.simps within_budget_def content_size_def
      evictable_def is_grounding_def)

theorem context_store_budget_witness:
  "1 \<le> max_turns \<lparr>max_turns = 2, max_size = 80\<rparr>
   \<and> appended [(0, grounding ''s1''), (0, said User ''hi''), (1, said User ''other''),
         (0, said Assistant ''yo''), (0, grounding ''s2'')] 0
       = [grounding ''s1'', said User ''hi'', said Assistant ''yo'', grounding ''s2'']
   \<and> Appends \<lparr>max_turns = 2, max_size = 80\<rparr> (\<lambda>k. [])
        [(0, grounding ''s1''), (0, said User ''hi''), (1, said User ''other''),
         (0, said Assistant ''yo''), (0, grounding ''s2'')] 0
       = [grounding ''s1'', grounding ''s2'']
   \<and> within_budget \<lparr>max_turns = 2, max_size = 80\<rparr>
        (Appends \<lparr>max_turns = 2, max_size = 80\<rparr> (\<lambda>k. [])
          [(0, grounding ''s1''), (0, said User ''hi''), (1, said User ''other''),
           (0, said Assistant ''yo''), (0, grounding ''s2'')] 0)"
proof -
  let ?b = "\<lparr>max_turns = 2, max_size = 80\<rparr>"
  let ?calls = "[(0::nat, grounding ''s1''), (0, said User ''hi''), (1, said User ''other''),
         (0, said Assistant ''yo''), (0, grounding ''s2'')]"
  have one: "1 \<le> max_turns ?b" by simp
  have app: "appended ?calls 0
       = [grounding ''s1'', said User ''hi'', said Assistant ''yo'', grounding ''s2'']"
    by (simp add: appended_def)
  have small: "\<forall>t \<in> set (appended ?calls 0). is_grounding t \<longrightarrow> length (turn_text t) \<le> max_size ?b"
    unfolding app by (simp add: grounding_def said_def)
  from context_store_budget [of ?b ?calls 0 "[]"] one small
  have fits: "within_budget ?b (Appends ?b (\<lambda>k. []) ?calls 0)" by blast
  have store: "Appends ?b (\<lambda>k. []) ?calls 0 = [grounding ''s1'', grounding ''s2'']"
    by (simp add: Appends_def Append_def evict.simps evict_one_def evictable_def
        within_budget_def content_size_def is_grounding_def grounding_def said_def)
  from one app store fits show ?thesis by blast
qed

section \<open>Properties of the Control Arbiter and the Session Manager\<close>

lemma invoke_oracle_bound: "snd (invoke_oracle limit call p) \<le> limit"
  by (simp add: invoke_oracle_def split: prod.splits)

lemma ai_decide_bound: "snd (ai_decide env cfg recent obs) \<le> 2 * request_timeout cfg"
proof -
  let ?a = "invoke_oracle (request_timeout cfg) (llm env 0) (full_prompt env recent obs)"
  let ?b = "invoke_oracle (request_timeout cfg) (llm env 1) (short_prompt env obs)"
  have "snd ?a \<le> request_timeout cfg" and "snd ?b \<le> request_timeout cfg"
    by (rule invoke_oracle_bound)+
  then show ?thesis
    by (cases ?a; cases ?b) (auto simp add: ai_decide_def split: oracle_reply.splits)
qed

lemma ai_decide_fallback:
  assumes "oracle_failed (fst (invoke_oracle (request_timeout cfg) (llm env 0)
              (full_prompt env recent obs)))"
    and "oracle_failed (fst (invoke_oracle (request_timeout cfg) (llm env 1)
              (short_prompt env obs)))"
  shows "fst (ai_decide env cfg recent obs) = (default_action cfg, True)"
proof -
  let ?a = "invoke_oracle (request_timeout cfg) (llm env 0) (full_prompt env recent obs)"
  let ?b = "invoke_oracle (request_timeout cfg) (llm env 1) (short_prompt env obs)"
  from assms show ?thesis
    by (cases ?a; cases ?b)
      (auto simp add: ai_decide_def oracle_failed_def split: oracle_reply.splits)
qed

lemma arbitrate_ai:
  assumes "consults_ai md n h"
  shows "\<exists>taken. arbitrate env cfg md n h recent obs
            = Inr (taken, Ai, snd (ai_decide env cfg recent obs))
          \<and> action taken = fst (fst (ai_decide env cfg recent obs))
          \<and> ai_fallback taken = snd (fst (ai_decide env cfg recent obs))"
  using assms
  by (cases md; cases "ai_decide env cfg recent obs")
    (auto simp add: arbitrate_def consults_ai_def split: prod.splits)

lemma Step_consults_ai:
  assumes "sessions m sid = Some s" and "\<not> terminal (latest s)"
    and "consults_ai (control_mode s) (step_counter s) h"
  shows "\<exists>r m' s'. Step env cfg m sid h = Inr (r, m')
      \<and> actor r = Ai
      \<and> action (action_taken r)
          = fst (fst (ai_decide env cfg (Recent (store m) sid (recent_limit cfg)) (latest s)))
      \<and> ai_fallback (action_taken r)
          = snd (fst (ai_decide env cfg (Recent (store m) sid (recent_limit cfg)) (latest s)))
      \<and> oracle_wait r
          = snd (ai_decide env cfg (Recent (store m) sid (recent_limit cfg)) (latest s))
      \<and> sessions m' sid = Some s'
      \<and> step_counter s' = Suc (step_counter s)"
proof -
  from arbitrate_ai [OF assms(3), of env cfg "Recent (store m) sid (recent_limit cfg)" "latest s"]
  obtain taken where
    arb: "arbitrate env cfg (control_mode s) (step_counter s) h
            (Recent (store m) sid (recent_limit cfg)) (latest s)
          = Inr (taken, Ai, snd (ai_decide env cfg (Recent (store m) sid (recent_limit cfg)) (latest s)))"
    and act: "action taken
          = fst (fst (ai_decide env cfg (Recent (store m) sid (recent_limit cfg)) (latest s)))"
    and fb: "ai_fallback taken
          = snd (fst (ai_decide env cfg (Recent (store m) sid (recent_limit cfg)) (latest s)))"
    by blast
  obtain h' obs where emu: "emu_step env (emulator s) (action taken) = (h', obs)"
    by (cases "emu_step env (emulator s) (action taken)")
  from assms(1,2) arb emu act fb show ?thesis
    by (simp add: Step_def)
qed

lemma Step_missing:
  assumes "sessions m sid = Some s" and "\<not> terminal (latest s)"
    and "control_mode s = CoopTurn" and "even (step_counter s)"
  shows "Step env cfg m sid NoInput = Inl MissingHumanAction"
  using assms by (simp add: Step_def arbitrate_def human_acts_def)

lemma Step_supplied:
  assumes "sessions m sid = Some s" and "\<not> terminal (latest s)"
    and "control_mode s = CoopTurn" and "even (step_counter s)"
  shows "\<exists>r m' s'. Step env cfg m sid (Supplied a) = Inr (r, m')
      \<and> actor r = Human \<and> action (action_taken r) = a
      \<and> sessions m' sid = Some s' \<and> step_counter s' = Suc (step_counter s)
      \<and> control_mode s' = CoopTurn \<and> latest s' = observation r"
  using assms
  by (simp add: Step_def arbitrate_def human_acts_def split: prod.splits)

lemma sf2_created: "CreateSession sf2_env new_manager ''sf2'' CoopTurn = Inr (0, sf2_started)"
  by (simp add: CreateSession_def sf2_env_def sf2_started_def new_manager_def)

text \<open>
  Claim C3. Whenever a step of a live session consults the oracle, the step
  succeeds, the step counter of the session advances by exactly one, and the
  step waits for the oracle no longer than twice the request timeout; when
  the first call and the retry both fail or time out, the action taken is the
  configured default action and carries \<open>ai_fallback\<close>.
\<close>

theorem ai_failure_falls_back:
  "sessions m sid = Some s \<and> \<not> terminal (latest s)
     \<and> consults_ai (control_mode s) (step_counter s) h \<longrightarrow>
     (\<exists>r m' s'. Step env cfg m sid h = Inr (r, m')
        \<and> sessions m' sid = Some s' \<and> step_counter s' = step_counter s + 1
        \<and> oracle_wait r \<le> 2 * request_timeout cfg
        \<and> (oracle_failed (fst (invoke_oracle (request_timeout cfg) (llm env 0)
               (full_prompt env (Recent (store m) sid (recent_limit cfg)) (latest s))))
            \<and> oracle_failed (fst (invoke_oracle (request_timeout cfg) (llm env 1)
               (short_prompt env (latest s))))
            \<longrightarrow> ai_fallback (action_taken r) \<and> action (action_taken r) = default_action cfg))"
proof (intro impI, elim conjE)
  assume s: "sessions m sid = Some s" and live: "\<not> terminal (latest s)"
    and ai: "consults_ai (control_mode s) (step_counter s) h"
  let ?recent = "Recent (store m) sid (recent_limit cfg)"
  from Step_consults_ai [OF s live ai, of env cfg] obtain r m' s' where
    st: "Step env cfg m sid h = Inr (r, m')"
    and act: "action (action_taken r) = fst (fst (ai_decide env cfg ?recent (latest s)))"
    and fb: "ai_fallback (action_taken r) = snd (fst (ai_decide env cfg ?recent (latest s)))"
    and wait: "oracle_wait r = snd (ai_decide env cfg ?recent (latest s))"
    and s': "sessions m' sid = Some s'" and cnt: "step_counter s' = Suc (step_counter s)"
    by blast
  from wait have bound: "oracle_wait r \<le> 2 * request_timeout cfg"
    by (simp add: ai_decide_bound)
  have "ai_fallback (action_taken r) \<and> action (action_taken r) = default_action cfg"
    if "oracle_failed (fst (invoke_oracle (request_timeout cfg) (llm env 0)
               (full_prompt env ?recent (latest s))))"
      and "oracle_failed (fst (invoke_oracle (request_timeout cfg) (llm env 1)
               (short_prompt env (latest s))))"
    using ai_decide_fallback [OF that] act fb by simp
  with st s' cnt bound show "\<exists>r m' s'. Step env cfg m sid h = Inr (r, m')
        \<and> sessions m' sid = Some s' \<and> step_counter s' = step_counter s + 1
        \<and> oracle_wait r \<le> 2 * request_timeout cfg
        \<and> (oracle_failed (fst (invoke_oracle (request_timeout cfg) (llm env 0)
               (full_prompt env ?recent (latest s))))
            \<and> oracle_failed (fst (invoke_oracle (request_timeout cfg) (llm env 1)
               (short_prompt env (latest s))))
            \<longrightarrow> ai_fallback (action_taken r) \<and> action (action_taken r) = default_action cfg)"
    by auto
qed

theorem ai_failure_falls_back_witness:
  "sessions sf2_started 0 = Some \<lparr>game = ''sf2'', emulator = 0, control_mode = CoopTurn,
       step_counter = 0, latest = quiet\<rparr>
   \<and> consults_ai CoopTurn 0 OptOut
   \<and> oracle_failed (fst (invoke_oracle 5 (llm sf2_env 0)
        (full_prompt sf2_env (Recent (store sf2_started) 0 4) quiet)))
   \<and> oracle_failed (fst (invoke_oracle 5 (llm sf2_env 1) (short_prompt sf2_env quiet)))
   \<and> (\<exists>r m' s'. Step sf2_env sf2_cfg sf2_started 0 OptOut = Inr (r, m')
         \<and> sessions m' 0 = Some s' \<and> step_counter s' = 1
         \<and> oracle_wait r \<le> 10
         \<and> ai_fallback (action_taken r) \<and> action (action_taken r) = noop)"
proof -
  let ?s = "\<lparr>game = ''sf2'', emulator = 0::nat, control_mode = CoopTurn,
       step_counter = 0, latest = quiet\<rparr>"
  have s: "sessions sf2_started 0 = Some ?s"
    by (simp add: sf2_started_def)
  have ai: "consults_ai CoopTurn 0 OptOut"
    by (simp add: consults_ai_def)
  have f1: "oracle_failed (fst (invoke_oracle 5 (llm sf2_env 0)
        (full_prompt sf2_env (Recent (store sf2_started) 0 4) quiet)))"
    by (simp add: oracle_failed_def invoke_oracle_def sf2_env_def)
  have f2: "oracle_failed (fst (invoke_oracle 5 (llm sf2_env 1) (short_prompt sf2_env quiet)))"
    by (simp add: oracle_failed_def invoke_oracle_def sf2_env_def)
  have pre: "sessions sf2_started 0 = Some ?s \<and> \<not> terminal (latest ?s)
     \<and> consults_ai (control_mode ?s) (step_counter ?s) OptOut"
    using s ai by (simp add: quiet_def)
  have cfg: "request_timeout sf2_cfg = 5" "recent_limit sf2_cfg = 4" "default_action sf2_cfg = noop"
    by (simp_all add: sf2_cfg_def)
  from ai_failure_falls_back [where m = sf2_started and sid = 0 and s = ?s and h = OptOut
      and env = sf2_env and cfg = sf2_cfg] pre
  obtain r m' s' where
    st: "Step sf2_env sf2_cfg sf2_started 0 OptOut = Inr (r, m')"
    and s': "sessions m' 0 = Some s'" and cnt: "step_counter s' = step_counter ?s + 1"
    and wait: "oracle_wait r \<le> 2 * request_timeout sf2_cfg"
    and fb: "oracle_failed (fst (invoke_oracle (request_timeout sf2_cfg) (llm sf2_env 0)
               (full_prompt sf2_env (Recent (store sf2_started) 0 (recent_limit sf2_cfg)) (latest ?s))))
            \<and> oracle_failed (fst (invoke_oracle (request_timeout sf2_cfg) (llm sf2_env 1)
               (short_prompt sf2_env (latest ?s))))
            \<longrightarrow> ai_fallback (action_taken r) \<and> action (action_taken r) = default_action sf2_cfg"
    by blast
  from fb f1 f2 have "ai_fallback (action_taken r) \<and> action (action_taken r) = noop"
    by (simp add: cfg)
  moreover from cnt have "step_counter s' = 1" by simp
  moreover from wait have "oracle_wait r \<le> 10" by (simp add: cfg)
  ultimately show ?thesis using s ai f1 f2 st s' by blast
qed

text \<open>
  Claim C1, as amended. In mode \<open>coop-turn\<close> a step of a live session at an
  even step counter fails with \<open>MissingHumanAction\<close> when no human action is
  given, succeeds with the human as actor when one is supplied, and succeeds
  with the AI as actor when the human explicitly opts out; at an odd step
  counter it succeeds with the AI as actor whatever the human input. After
  \<open>CreateSession\<close> of a game of the catalog in mode \<open>coop-turn\<close>, the first
  step without a human action fails with \<open>MissingHumanAction\<close>, the first step
  with a supplied action succeeds with actor human, and, unless that step
  ended the game, the second step without a human action succeeds with actor
  AI.
\<close>

theorem coop_turn_actor:
  "(sessions m sid = Some s \<and> \<not> terminal (latest s) \<and> control_mode s = CoopTurn \<longrightarrow>
      (even (step_counter s) \<longrightarrow>
          Step env cfg m sid NoInput = Inl MissingHumanAction
        \<and> (\<exists>r m'. Step env cfg m sid (Supplied a) = Inr (r, m') \<and> actor r = Human
              \<and> action (action_taken r) = a)
        \<and> (\<exists>r m'. Step env cfg m sid OptOut = Inr (r, m') \<and> actor r = Ai))
    \<and> (odd (step_counter s) \<longrightarrow>
          (\<exists>r m'. Step env cfg m sid h = Inr (r, m') \<and> actor r = Ai)))
   \<and> (gameId \<in> set (catalog env) \<and> emu_reset env gameId = Some (hdl, ob)
        \<and> \<not> terminal ob \<longrightarrow>
       (\<exists>sid1 m1. CreateSession env mgr gameId CoopTurn = Inr (sid1, m1)
          \<and> Step env cfg m1 sid1 NoInput = Inl MissingHumanAction
          \<and> (\<exists>r1 m2. Step env cfg m1 sid1 (Supplied a) = Inr (r1, m2) \<and> actor r1 = Human
               \<and> (\<not> terminal (observation r1) \<longrightarrow>
                    (\<exists>r2 m3. Step env cfg m2 sid1 NoInput = Inr (r2, m3) \<and> actor r2 = Ai)))))"
proof -
  have rule: "(even (step_counter s) \<longrightarrow>
          Step env cfg m sid NoInput = Inl MissingHumanAction
        \<and> (\<exists>r m'. Step env cfg m sid (Supplied a) = Inr (r, m') \<and> actor r = Human
              \<and> action (action_taken r) = a)
        \<and> (\<exists>r m'. Step env cfg m sid OptOut = Inr (r, m') \<and> actor r = Ai))
    \<and> (odd (step_counter s) \<longrightarrow>
          (\<exists>r m'. Step env cfg m sid h = Inr (r, m') \<and> actor r = Ai))"
    if s: "sessions m sid = Some s" and live: "\<not> terminal (latest s)"
      and md: "control_mode s = CoopTurn"
  proof -
    have opt: "consults_ai (control_mode s) (step_counter s) OptOut"
      by (simp add: consults_ai_def md)
    have odd: "consults_ai (control_mode s) (step_counter s) h" if "odd (step_counter s)"
      using that by (simp add: consults_ai_def md)
    have human: "Step env cfg m sid NoInput = Inl MissingHumanAction
        \<and> (\<exists>r m'. Step env cfg m sid (Supplied a) = Inr (r, m') \<and> actor r = Human
              \<and> action (action_taken r) = a)"
      if "even (step_counter s)"
      using Step_missing [OF s live md that, of env cfg]
        Step_supplied [OF s live md that, of env cfg a] by blast
    from human Step_consults_ai [OF s live opt, of env cfg]
      Step_consults_ai [OF s live odd, of env cfg]
    show ?thesis by blast
  qed
  have scenario: "\<exists>sid1 m1. CreateSession env mgr gameId CoopTurn = Inr (sid1, m1)
          \<and> Step env cfg m1 sid1 NoInput = Inl MissingHumanAction
          \<and> (\<exists>r1 m2. Step env cfg m1 sid1 (Supplied a) = Inr (r1, m2) \<and> actor r1 = Human
               \<and> (\<not> terminal (observation r1) \<longrightarrow>
                    (\<exists>r2 m3. Step env cfg m2 sid1 NoInput = Inr (r2, m3) \<and> actor r2 = Ai)))"
    if cat: "gameId \<in> set (catalog env)" and reset: "emu_reset env gameId = Some (hdl, ob)"
      and live: "\<not> terminal ob"
  proof -
    let ?s = "\<lparr>game = gameId, emulator = hdl, control_mode = CoopTurn,
                step_counter = 0, latest = ob\<rparr>"
    let ?m1 = "mgr\<lparr>sessions := (sessions mgr)(next_id mgr \<mapsto> ?s), next_id := Suc (next_id mgr)\<rparr>"
    from cat reset have created: "CreateSession env mgr gameId CoopTurn = Inr (next_id mgr, ?m1)"
      by (simp add: CreateSession_def)
    have s1: "sessions ?m1 (next_id mgr) = Some ?s" by simp
    have live1: "\<not> terminal (latest ?s)" using live by simp
    have md1: "control_mode ?s = CoopTurn" by simp
    have ev1: "even (step_counter ?s)" by simp
    note first = Step_missing [OF s1 live1 md1 ev1, of env cfg]
    from Step_supplied [OF s1 live1 md1 ev1, of env cfg a] obtain r1 m2 s2 where
      st: "Step env cfg ?m1 (next_id mgr) (Supplied a) = Inr (r1, m2)"
      and who: "actor r1 = Human"
      and s2: "sessions m2 (next_id mgr) = Some s2"
      and cnt: "step_counter s2 = Suc (step_counter ?s)"
      and md2: "control_mode s2 = CoopTurn"
      and obs2: "latest s2 = observation r1"
      by blast
    have second: "\<exists>r2 m3. Step env cfg m2 (next_id mgr) NoInput = Inr (r2, m3) \<and> actor r2 = Ai"
      if "\<not> terminal (observation r1)"
    proof -
      from that obs2 have live2: "\<not> terminal (latest s2)" by simp
      from cnt md2 have "consults_ai (control_mode s2) (step_counter s2) NoInput"
        by (simp add: consults_ai_def)
      from Step_consults_ai [OF s2 live2 this, of env cfg] show ?thesis by blast
    qed
    from created first st who second show ?thesis by blast
  qed
  from rule scenario show ?thesis by blast
qed

text \<open>
  The claim as stated fails: at an even step counter the AI acts when the
  human opts out.
\<close>

theorem coop_turn_actor_counterexample:
  "(case CreateSession sf2_env new_manager ''sf2'' CoopTurn of
      Inl e \<Rightarrow> False
    | Inr (sid, m1) \<Rightarrow>
        (case sessions m1 sid of
           None \<Rightarrow> False
         | Some s \<Rightarrow>
             control_mode s = CoopTurn \<and> even (step_counter s)
             \<and> (case Step sf2_env sf2_cfg m1 sid OptOut of
                   Inl e \<Rightarrow> False
                 | Inr (r, m2) \<Rightarrow> actor r = Ai)))"
  by (simp add: CreateSession_def new_manager_def sf2_env_def sf2_cfg_def Step_def
      arbitrate_def ai_decide_def invoke_oracle_def full_prompt_def short_prompt_def
      quiet_def Recent_def)

theorem coop_turn_actor_witness:
  "''sf2'' \<in> set (catalog sf2_env)
   \<and> emu_reset sf2_env ''sf2'' = Some (0, quiet)
   \<and> \<not> terminal quiet
   \<and> CreateSession sf2_env new_manager ''sf2'' CoopTurn = Inr (0, sf2_started)
   \<and> Step sf2_env sf2_cfg sf2_started 0 NoInput = Inl MissingHumanAction
   \<and> (\<exists>r1 m2. Step sf2_env sf2_cfg sf2_started 0 (Supplied right) = Inr (r1, m2)
         \<and> actor r1 = Human
         \<and> (\<exists>r2 m3. Step sf2_env sf2_cfg m2 0 NoInput = Inr (r2, m3) \<and> actor r2 = Ai))"
proof -
  have pre: "''sf2'' \<in> set (catalog sf2_env) \<and> emu_reset sf2_env ''sf2'' = Some (0, quiet)
      \<and> \<not> terminal quiet"
    by (simp add: sf2_env_def quiet_def)
  from coop_turn_actor [where env = sf2_env and cfg = sf2_cfg and a = right and gameId = "''sf2''"
      and hdl = 0 and ob = quiet and mgr = new_manager] pre
  obtain sid1 m1 r1 m2 where
    c: "CreateSession sf2_env new_manager ''sf2'' CoopTurn = Inr (sid1, m1)"
    and none: "Step sf2_env sf2_cfg m1 sid1 NoInput = Inl MissingHumanAction"
    and one: "Step sf2_env sf2_cfg m1 sid1 (Supplied right) = Inr (r1, m2)"
    and who: "actor r1 = Human"
    and two: "\<not> terminal (observation r1) \<longrightarrow>
        (\<exists>r2 m3. Step sf2_env sf2_cfg m2 sid1 NoInput = Inr (r2, m3) \<and> actor r2 = Ai)"
    by blast
  from c have eqs: "sid1 = 0" "m1 = sf2_started" by (simp_all add: sf2_created)
  have "observation r1 = quiet"
    using one unfolding eqs
    by (auto simp add: Step_def sf2_started_def new_manager_def sf2_env_def arbitrate_def
        human_acts_def quiet_def)
  then have "\<not> terminal (observation r1)" by (simp add: quiet_def)
  with two have "\<exists>r2 m3. Step sf2_env sf2_cfg m2 0 NoInput = Inr (r2, m3) \<and> actor r2 = Ai"
    unfolding eqs by blast
  with pre c none one who show ?thesis unfolding eqs by blast
qed

end
